theory Spec2Isabelle
  imports Complex_Main
begin

section \<open>The projection engine of \<^verbatim>\<open>app.py\<close>\<close>

text \<open>
  The engine is the function \<^verbatim>\<open>calculate_projection\<close> (lines 27 to 67) together with the
  table \<^verbatim>\<open>INDUSTRY_GROWTH\<close> (lines 15 to 24). Everything else in the file collects the
  inputs and draws the results.

  Numbers. The monetary quantities and the rates are Python numbers (\<^verbatim>\<open>int\<close> and \<^verbatim>\<open>float\<close>). They are
  modelled as exact rationals: \<open>0.06\<close> is \<open>6/100\<close>, and \<^verbatim>\<open>round(x, 2)\<close> is rounding to the
  nearest multiple of \<open>1/100\<close>, ties to the even neighbour. Binary floating point
  representation error is therefore not part of the model; every statement below about a
  monetary value is a statement about this decimal reading of the arithmetic. The years
  and the ages are Python integers and are modelled as \<open>int\<close>.

  Absent values. \<^verbatim>\<open>current_age\<close> and \<^verbatim>\<open>marriage_age\<close> are \<^verbatim>\<open>None\<close> when the marriage box is not
  ticked (lines 86 to 90), so both are \<open>int option\<close>. Adding an integer to \<^verbatim>\<open>None\<close> raises
  \<^verbatim>\<open>TypeError\<close>; that is the only exception the function can raise, and it is a value of the
  model.
\<close>

subsection \<open>Data\<close>

datatype error = TypeError

record params =
  starting_salary :: rat
  rent :: rat
  monthly_expenses :: rat
  years :: int
  industry :: string
  investment_rate :: rat
  invest_ratio :: rat
  current_age :: "int option"
  marriage_age :: "int option"

text \<open>One entry of \<^verbatim>\<open>results\<close> (lines 55 to 65).\<close>

record snapshot =
  Year :: int
  Age :: int
  Salary :: rat
  Rent :: rat
  Expenses :: rat
  Savings :: rat
  Invested :: rat
  Cash :: rat
  Total :: rat

text \<open>The variables the loop carries from one year to the next (lines 28 to 31).\<close>

record loop_state =
  salary :: rat
  savings :: rat
  invested :: rat
  results :: "snapshot list"

subsection \<open>The growth table\<close>

definition INDUSTRY_GROWTH :: "string \<rightharpoonup> rat" where
  "INDUSTRY_GROWTH = map_of
     [(''finance'', 5 / 100),
      (''technology'', 6 / 100),
      (''healthcare'', 4 / 100),
      (''education'', 3 / 100),
      (''manufacturing'', 35 / 1000),
      (''retail'', 25 / 1000),
      (''government'', 2 / 100),
      (''consulting'', 45 / 1000)]"

text \<open>\<^verbatim>\<open>INDUSTRY_GROWTH.get(params['industry'], 0.03)\<close> (line 35).\<close>

definition growth_rate :: "string \<Rightarrow> rat" where
  "growth_rate k = (case INDUSTRY_GROWTH k of None \<Rightarrow> 3 / 100 | Some r \<Rightarrow> r)"

subsection \<open>Rounding to two digits\<close>

text \<open>
  \<^verbatim>\<open>round(x, 2)\<close>: the nearest multiple of \<open>1/100\<close>; a value exactly half way between two
  of them goes to the one whose last digit is even.
\<close>

definition round2 :: "rat \<Rightarrow> rat" where
  "round2 x =
     (let y = x * 100;
          f = \<lfloor>y\<rfloor>;
          d = y - of_int f
      in of_int (if d < 1 / 2 then f
                 else if 1 / 2 < d then f + 1
                 else if even f then f else f + 1) / 100)"

subsection \<open>The loop\<close>

text \<open>
  Lines 38 to 40. The test \<^verbatim>\<open>params['marriage_age'] and ...\<close> is a truth test: \<^verbatim>\<open>None\<close> and
  \<open>0\<close> are both false and skip the comparison; any other marriage age evaluates
  \<^verbatim>\<open>params['current_age'] + year - 1\<close>, which raises when the current age is \<^verbatim>\<open>None\<close>.
\<close>

definition effective_rent :: "params \<Rightarrow> int \<Rightarrow> error + rat" where
  "effective_rent p year =
     (case marriage_age p of
        None \<Rightarrow> Inr (rent p)
      | Some m \<Rightarrow>
          if m = 0 then Inr (rent p)
          else (case current_age p of
                  None \<Rightarrow> Inl TypeError
                | Some a \<Rightarrow>
                    if a + year - 1 \<ge> m then Inr (rent p * (8 / 10)) else Inr (rent p)))"

text \<open>
  One pass through the loop body (lines 34 to 65). The entry \<^verbatim>\<open>'Age'\<close> of the appended
  dictionary is \<^verbatim>\<open>params['current_age'] + year - 1\<close>, evaluated in every year whether or not
  a marriage age is given.
\<close>

definition body :: "params \<Rightarrow> int \<Rightarrow> loop_state \<Rightarrow> error + loop_state" where
  "body p year st =
     (let salary' = salary st * (1 + growth_rate (industry p)) in
      case effective_rent p year of
        Inl e \<Rightarrow> Inl e
      | Inr rent' \<Rightarrow>
          let expenses = rent' + monthly_expenses p * 12;
              annual_savings = salary' - expenses;
              to_invest = annual_savings * invest_ratio p;
              to_cash = annual_savings * (1 - invest_ratio p);
              invested' = invested st * (1 + investment_rate p) + to_invest;
              savings' = savings st + to_cash;
              total = savings' + invested'
          in (case current_age p of
                None \<Rightarrow> Inl TypeError
              | Some a \<Rightarrow>
                  Inr \<lparr>salary = salary', savings = savings', invested = invested',
                       results = results st @
                         [\<lparr>Year = year,
                           Age = a + year - 1,
                           Salary = round2 salary',
                           Rent = round2 rent',
                           Expenses = round2 expenses,
                           Savings = round2 annual_savings,
                           Invested = round2 invested',
                           Cash = round2 savings',
                           Total = round2 total\<rparr>]\<rparr>))"

text \<open>\<^verbatim>\<open>for year in range(1, params['years'] + 1)\<close>: the body over a list of years, stopping at
  the first exception.\<close>

fun run_years :: "params \<Rightarrow> int list \<Rightarrow> loop_state \<Rightarrow> error + loop_state" where
  "run_years p [] st = Inr st"
| "run_years p (year # ys) st =
     (case body p year st of Inl e \<Rightarrow> Inl e | Inr st' \<Rightarrow> run_years p ys st')"

definition initial :: "params \<Rightarrow> loop_state" where
  "initial p = \<lparr>salary = starting_salary p, savings = 0, invested = 0, results = []\<rparr>"

definition calculate_projection :: "params \<Rightarrow> error + snapshot list" where
  "calculate_projection p =
     (case run_years p [1..years p] (initial p) of
        Inl e \<Rightarrow> Inl e
      | Inr st \<Rightarrow> Inr (results st))"

subsection \<open>The documented input domain\<close>

text \<open>
  The conditions under which the caller invokes the engine: the three amounts are positive
  (line 93), the sliders bound \<^verbatim>\<open>years\<close>, \<^verbatim>\<open>investment_rate\<close> and \<^verbatim>\<open>invest_ratio\<close> (lines 77, 81
  and 82), and the two ages are given together or not at all (lines 86 to 90).
\<close>

definition valid_params :: "params \<Rightarrow> bool" where
  "valid_params p =
     (0 < starting_salary p \<and> 0 < rent p \<and> 0 < monthly_expenses p \<and>
      1 \<le> years p \<and> years p \<le> 50 \<and>
      0 \<le> investment_rate p \<and> investment_rate p \<le> 2 / 10 \<and>
      0 \<le> invest_ratio p \<and> invest_ratio p \<le> 1 \<and>
      ((current_age p = None) = (marriage_age p = None)))"

subsection \<open>Concrete inputs\<close>

text \<open>The scenario of the specification: no marriage plan.\<close>

definition scenario :: params where
  "scenario =
     \<lparr>starting_salary = 80000, rent = 18000, monthly_expenses = 1500, years = 3,
      industry = ''technology'', investment_rate = 5 / 100, invest_ratio = 1 / 2,
      current_age = None, marriage_age = None\<rparr>"

text \<open>A one-year projection for somebody who did not tick the marriage box.\<close>

definition unmarried :: params where
  "unmarried =
     \<lparr>starting_salary = 50000, rent = 12000, monthly_expenses = 1000, years = 1,
      industry = ''finance'', investment_rate = 0, invest_ratio = 0,
      current_age = None, marriage_age = None\<rparr>"

text \<open>The same scenario for somebody aged 30 who plans to marry at 40, over four years.\<close>

definition scenario_planned :: params where
  "scenario_planned =
     \<lparr>starting_salary = 80000, rent = 18000, monthly_expenses = 1500, years = 4,
      industry = ''technology'', investment_rate = 5 / 100, invest_ratio = 1 / 2,
      current_age = Some 30, marriage_age = Some 40\<rparr>"

text \<open>The rent example of the specification: aged 30, marrying at 32, rent 12000.\<close>

definition married :: params where
  "married =
     \<lparr>starting_salary = 60000, rent = 12000, monthly_expenses = 1000, years = 5,
      industry = ''finance'', investment_rate = 5 / 100, invest_ratio = 1 / 2,
      current_age = Some 30, marriage_age = Some 32\<rparr>"

subsection \<open>The projections of the concrete inputs\<close>

definition scenario_planned_projection :: "snapshot list" where
  "scenario_planned_projection =
     [\<lparr>Year = 1, Age = 30, Salary = 84800, Rent = 18000, Expenses = 36000,
       Savings = 48800, Invested = 24400, Cash = 24400, Total = 48800\<rparr>,
      \<lparr>Year = 2, Age = 31, Salary = 89888, Rent = 18000, Expenses = 36000,
       Savings = 53888, Invested = 52564, Cash = 51344, Total = 103908\<rparr>,
      \<lparr>Year = 3, Age = 32, Salary = 9528128 / 100, Rent = 18000, Expenses = 36000,
       Savings = 5928128 / 100, Invested = 8483284 / 100, Cash = 8098464 / 100,
       Total = 16581748 / 100\<rparr>,
      \<lparr>Year = 4, Age = 33, Salary = 10099816 / 100, Rent = 18000, Expenses = 36000,
       Savings = 6499816 / 100, Invested = 12157356 / 100, Cash = 11348372 / 100,
       Total = 23505728 / 100\<rparr>]"

definition married_projection :: "snapshot list" where
  "married_projection =
     [\<lparr>Year = 1, Age = 30, Salary = 63000, Rent = 12000, Expenses = 24000,
       Savings = 39000, Invested = 19500, Cash = 19500, Total = 39000\<rparr>,
      \<lparr>Year = 2, Age = 31, Salary = 66150, Rent = 12000, Expenses = 24000,
       Savings = 42150, Invested = 41550, Cash = 40575, Total = 82125\<rparr>,
      \<lparr>Year = 3, Age = 32, Salary = 6945750 / 100, Rent = 9600, Expenses = 21600,
       Savings = 4785750 / 100, Invested = 6755625 / 100, Cash = 6450375 / 100,
       Total = 132060\<rparr>,
      \<lparr>Year = 4, Age = 33, Salary = 7293038 / 100, Rent = 9600, Expenses = 21600,
       Savings = 5133038 / 100, Invested = 9659925 / 100, Cash = 9016894 / 100,
       Total = 18676819 / 100\<rparr>,
      \<lparr>Year = 5, Age = 34, Salary = 7657689 / 100, Rent = 9600, Expenses = 21600,
       Savings = 5497689 / 100, Invested = 12891766 / 100, Cash = 11765738 / 100,
       Total = 24657504 / 100\<rparr>]"

section \<open>Facts about the growth table\<close>

lemma INDUSTRY_GROWTH_dom:
  "dom INDUSTRY_GROWTH =
     {''finance'', ''technology'', ''healthcare'', ''education'',
      ''manufacturing'', ''retail'', ''government'', ''consulting''}"
  by (auto simp add: INDUSTRY_GROWTH_def split: if_splits)

lemma growth_rate_unknown:
  "INDUSTRY_GROWTH k = None \<Longrightarrow> growth_rate k = 3 / 100"
  by (simp add: growth_rate_def)

lemma growth_rate_education: "growth_rate ''education'' = 3 / 100"
  by (simp add: growth_rate_def INDUSTRY_GROWTH_def)

section \<open>Facts about the loop\<close>

subsection \<open>When the current age is absent\<close>

lemma error_TypeError: "(e :: error) = TypeError"
  by (cases e) simp

lemma body_no_age:
  "current_age p = None \<Longrightarrow> body p year st = Inl TypeError"
  by (simp add: body_def Let_def error_TypeError split: sum.splits)

lemma run_years_no_age:
  "current_age p = None \<Longrightarrow> ys \<noteq> [] \<Longrightarrow> run_years p ys st = Inl TypeError"
  by (cases ys) (simp_all add: body_no_age)

lemma calculate_projection_no_age:
  "current_age p = None \<Longrightarrow> 1 \<le> years p \<Longrightarrow> calculate_projection p = Inl TypeError"
  by (simp add: calculate_projection_def run_years_no_age)

subsection \<open>When the current age is present\<close>

lemma effective_rent_not_error:
  "current_age p = Some a \<Longrightarrow> \<not> isl (effective_rent p year)"
  by (simp add: effective_rent_def split: option.splits)

lemma effective_rent_total:
  "current_age p = Some a \<Longrightarrow> \<exists>r. effective_rent p year = Inr r"
  using effective_rent_not_error[of p a year] by (cases "effective_rent p year") simp_all

lemma body_total:
  "current_age p = Some a \<Longrightarrow> \<exists>st'. body p year st = Inr st'"
  using effective_rent_total[of p a year]
  by (auto simp add: body_def Let_def)

lemma run_years_total:
  "current_age p = Some a \<Longrightarrow> \<exists>st'. run_years p ys st = Inr st'"
proof (induction ys arbitrary: st)
  case Nil
  then show ?case by simp
next
  case (Cons y ys)
  from body_total[OF Cons.prems] obtain s where "body p y st = Inr s" by blast
  with Cons.IH[OF Cons.prems, of s] show ?case by simp
qed

lemma calculate_projection_returns:
  "current_age p = Some a \<Longrightarrow> \<exists>res. calculate_projection p = Inr res"
  using run_years_total[of p a "[1..years p]" "initial p"]
  by (auto simp add: calculate_projection_def)

subsection \<open>What one pass does\<close>

lemma body_InrD:
  assumes "body p year st = Inr st'"
  shows "\<exists>a r. current_age p = Some a \<and> effective_rent p year = Inr r \<and>
     salary st' = salary st * (1 + growth_rate (industry p)) \<and>
     invested st' = invested st * (1 + investment_rate p)
        + (salary st' - (r + monthly_expenses p * 12)) * invest_ratio p \<and>
     savings st' = savings st
        + (salary st' - (r + monthly_expenses p * 12)) * (1 - invest_ratio p) \<and>
     results st' = results st @
       [\<lparr>Year = year, Age = a + year - 1,
         Salary = round2 (salary st'),
         Rent = round2 r,
         Expenses = round2 (r + monthly_expenses p * 12),
         Savings = round2 (salary st' - (r + monthly_expenses p * 12)),
         Invested = round2 (invested st'),
         Cash = round2 (savings st'),
         Total = round2 (savings st' + invested st')\<rparr>]"
proof -
  from assms obtain r where r: "effective_rent p year = Inr r"
    by (cases "effective_rent p year") (simp_all add: body_def Let_def)
  from assms r obtain a where a: "current_age p = Some a"
    by (cases "current_age p") (simp_all add: body_def Let_def)
  from assms r a show ?thesis
    by (simp add: body_def Let_def) (erule subst, simp)
qed

subsection \<open>The loop over a range of years\<close>

lemma run_years_append:
  "run_years p (xs @ ys) st =
     (case run_years p xs st of Inl e \<Rightarrow> Inl e | Inr s \<Rightarrow> run_years p ys s)"
  by (induction xs arbitrary: st) (simp_all split: sum.splits)

lemma run_years_results:
  "run_years p ys st = Inr st' \<Longrightarrow>
     \<exists>zs. results st' = results st @ zs \<and> length zs = length ys"
proof (induction ys arbitrary: st)
  case Nil
  then show ?case by simp
next
  case (Cons y ys)
  from Cons.prems obtain s where s: "body p y st = Inr s" "run_years p ys s = Inr st'"
    by (auto split: sum.splits)
  from body_InrD[OF s(1)] obtain x where x: "results s = results st @ [x]" by blast
  from Cons.IH[OF s(2)] obtain zs where "results st' = results s @ zs" "length zs = length ys"
    by blast
  with x show ?case by simp
qed

lemma snapshot_at:
  assumes run: "run_years p [1..n] st0 = Inr st"
    and empty: "results st0 = []"
    and k: "1 \<le> k" "k \<le> n"
  shows "\<exists>s s'. run_years p [1..k - 1] st0 = Inr s \<and> body p k s = Inr s' \<and>
           run_years p [1..k] st0 = Inr s' \<and>
           results st ! nat (k - 1) = last (results s')"
proof -
  have split: "[1..n] = [1..k] @ [k + 1..n]"
    by (rule upto_split2) (use k in simp_all)
  from run have "run_years p ([1..k] @ [k + 1..n]) st0 = Inr st"
    by (simp only: split[symmetric])
  then obtain s' where s': "run_years p [1..k] st0 = Inr s'" "run_years p [k + 1..n] s' = Inr st"
    by (auto simp add: run_years_append split: sum.splits)
  have snoc: "[1..k] = [1..k - 1] @ [k]" by (rule upto_rec2) (use k in simp)
  from s'(1) have "run_years p ([1..k - 1] @ [k]) st0 = Inr s'"
    by (simp only: snoc[symmetric])
  then obtain s where s: "run_years p [1..k - 1] st0 = Inr s" "body p k s = Inr s'"
    by (auto simp add: run_years_append split: sum.splits)
  from run_years_results[OF s(1)] empty have len: "length (results s) = nat (k - 1)"
    using k by auto
  from body_InrD[OF s(2)] obtain x where x: "results s' = results s @ [x]" by blast
  from run_years_results[OF s'(2)] obtain zs where "results st = results s' @ zs" by blast
  with x len have "results st ! nat (k - 1) = x" by (simp add: nth_append)
  with x s s'(1) show ?thesis by auto
qed

lemma calculate_projection_length:
  "calculate_projection p = Inr res \<Longrightarrow> length res = nat (years p)"
proof -
  assume "calculate_projection p = Inr res"
  then obtain st where st: "run_years p [1..years p] (initial p) = Inr st" "res = results st"
    by (auto simp add: calculate_projection_def split: sum.splits)
  from run_years_results[OF st(1)] st(2) show ?thesis
    by (auto simp add: initial_def)
qed

text \<open>
  The snapshot of year \<open>i + 1\<close> is the one the body appends in its pass for that year,
  from the unrounded state \<open>s\<close> that the first \<open>i\<close> passes leave.
\<close>

lemma snapshot_fields:
  assumes "calculate_projection p = Inr res" and "i < length res"
  shows "\<exists>a r s s'.
     current_age p = Some a \<and> effective_rent p (int i + 1) = Inr r \<and>
     run_years p [1..int i] (initial p) = Inr s \<and>
     run_years p [1..int i + 1] (initial p) = Inr s' \<and>
     salary s' = salary s * (1 + growth_rate (industry p)) \<and>
     invested s' = invested s * (1 + investment_rate p)
        + (salary s' - (r + monthly_expenses p * 12)) * invest_ratio p \<and>
     savings s' = savings s
        + (salary s' - (r + monthly_expenses p * 12)) * (1 - invest_ratio p) \<and>
     res ! i =
       \<lparr>Year = int i + 1, Age = a + (int i + 1) - 1,
        Salary = round2 (salary s'),
        Rent = round2 r,
        Expenses = round2 (r + monthly_expenses p * 12),
        Savings = round2 (salary s' - (r + monthly_expenses p * 12)),
        Invested = round2 (invested s'),
        Cash = round2 (savings s'),
        Total = round2 (savings s' + invested s')\<rparr>"
proof -
  from assms(1) obtain st where st: "run_years p [1..years p] (initial p) = Inr st"
    "res = results st"
    by (auto simp add: calculate_projection_def split: sum.splits)
  from assms have i: "int i + 1 \<le> years p"
    using calculate_projection_length[OF assms(1)] by simp
  have "results (initial p) = []" by (simp add: initial_def)
  from snapshot_at[OF st(1) this, of "int i + 1"] i
  obtain s s' where s: "run_years p [1..int i] (initial p) = Inr s"
    "body p (int i + 1) s = Inr s'" "run_years p [1..int i + 1] (initial p) = Inr s'"
    "results st ! i = last (results s')"
    by auto
  from body_InrD[OF s(2)] s(1,3,4) st(2) show ?thesis
    by (elim exE conjE) (intro exI conjI, assumption+, simp)
qed

subsection \<open>The industry key matters through its rate only\<close>

lemma effective_rent_industry:
  "effective_rent (p\<lparr>industry := k\<rparr>) year = effective_rent p year"
  by (simp add: effective_rent_def split: option.splits)

lemma body_same_rate:
  assumes "growth_rate k = growth_rate k'"
  shows "body (p\<lparr>industry := k\<rparr>) year st = body (p\<lparr>industry := k'\<rparr>) year st"
  using assms
  by (cases "effective_rent p year"; cases "current_age p")
     (simp_all add: body_def effective_rent_industry Let_def)

lemma run_years_same_rate:
  assumes "growth_rate k = growth_rate k'"
  shows "run_years (p\<lparr>industry := k\<rparr>) ys st = run_years (p\<lparr>industry := k'\<rparr>) ys st"
proof (induction ys arbitrary: st)
  case Nil
  show ?case by simp
next
  case (Cons y ys)
  show ?case
    by (cases "body (p\<lparr>industry := k'\<rparr>) y st")
       (simp_all only: run_years.simps body_same_rate[OF assms] Cons.IH sum.case)
qed

lemma calculate_projection_same_rate:
  "growth_rate k = growth_rate k' \<Longrightarrow>
     calculate_projection (p\<lparr>industry := k\<rparr>) = calculate_projection (p\<lparr>industry := k'\<rparr>)"
  using run_years_same_rate[of k k' p "[1..years p]" "initial p"]
  by (simp add: calculate_projection_def initial_def)

subsection \<open>The concrete inputs, evaluated\<close>

lemma calculate_projection_scenario_planned:
  "calculate_projection scenario_planned = Inr scenario_planned_projection"
  by code_simp

lemma calculate_projection_married:
  "calculate_projection married = Inr married_projection"
  by code_simp

section \<open>The claims\<close>

text \<open>
  C1. The specification says that calculate_projection runs to completion on every input
  of the documented domain and raises nothing, in particular when the marriage plan is
  absent. The code does not: the input \<open>unmarried\<close> is in the documented domain, its two
  ages are \<^verbatim>\<open>None\<close>, and the entry \<^verbatim>\<open>'Age'\<close> of the first snapshot adds an integer to
  \<^verbatim>\<open>None\<close>, so the call raises \<^verbatim>\<open>TypeError\<close> in its first pass.
\<close>

theorem calculate_projection_unmarried_raises:
  "valid_params unmarried \<and> calculate_projection unmarried = Inl TypeError"
  by (simp add: valid_params_def unmarried_def calculate_projection_no_age)

text \<open>
  C2. The specification's scenario (salary 80000, rent 18000, monthly expenses 1500, three
  years, technology, no marriage plan) is said to return a first snapshot with Salary
  84800.00, Expenses 36000, Savings 48800.00, Invested 24400.00, Cash 24400.00 and Total
  48800.00. On that input the code returns no snapshot: it raises \<^verbatim>\<open>TypeError\<close>, for the
  reason given under C1.
\<close>

theorem calculate_projection_scenario_raises:
  "valid_params scenario \<and> calculate_projection scenario = Inl TypeError"
  by (simp add: valid_params_def scenario_def calculate_projection_no_age)

text \<open>
  The figures of the scenario are the ones the loop computes as soon as the two ages are
  given and the marriage lies beyond the projected years.
\<close>

lemma scenario_planned_first_year:
  "calculate_projection scenario_planned = Inr scenario_planned_projection \<and>
   scenario_planned_projection ! 0 =
     \<lparr>Year = 1, Age = 30, Salary = 84800, Rent = 18000, Expenses = 36000,
      Savings = 48800, Invested = 24400, Cash = 24400, Total = 48800\<rparr>"
  by (simp add: calculate_projection_scenario_planned) (simp add: scenario_planned_projection_def)

text \<open>
  C3. Every sequence that calculate_projection returns has exactly \<^verbatim>\<open>params['years']\<close>
  elements, and its element number \<open>i\<close> (counting from 1) has Year \<open>i\<close>: the snapshots are in
  ascending order of Year, starting at 1. No assumption on the amounts and rates is
  needed, and the call does return a sequence whenever the current age is given.
\<close>

theorem projection_length_and_years:
  "(\<forall>a. current_age p = Some a \<longrightarrow> (\<exists>res. calculate_projection p = Inr res)) \<and>
   (\<forall>res. calculate_projection p = Inr res \<longrightarrow>
      length res = nat (years p) \<and> (\<forall>i<length res. Year (res ! i) = int i + 1))"
proof (intro conjI allI impI)
  fix a
  assume "current_age p = Some a"
  then show "\<exists>res. calculate_projection p = Inr res"
    by (rule calculate_projection_returns)
next
  fix res
  assume "calculate_projection p = Inr res"
  then show "length res = nat (years p)"
    by (rule calculate_projection_length)
next
  fix res i
  assume res: "calculate_projection p = Inr res" and "i < length res"
  from snapshot_fields[OF this] show "Year (res ! i) = int i + 1"
    by (elim exE conjE) simp
qed

theorem projection_length_and_years_witness:
  "current_age married = Some 30 \<and>
   calculate_projection married = Inr married_projection \<and>
   length married_projection = nat (years married) \<and>
   length married_projection = 5 \<and>
   Year (married_projection ! 0) = 1 \<and>
   Year (married_projection ! 4) = 5"
proof -
  have l: "length married_projection = 5" by (simp add: married_projection_def)
  have a: "current_age married = Some 30" by (simp add: married_def)
  from projection_length_and_years[of married] calculate_projection_married
  have "length married_projection = nat (years married)"
    and "\<forall>i<length married_projection. Year (married_projection ! i) = int i + 1"
    by simp_all
  with l a calculate_projection_married show ?thesis by simp
qed

text \<open>
  C8. An industry key that is not in the growth table gets the rate 0.03, and the call with
  it returns exactly what the call with an industry of table rate 0.03 (such as
  \<^verbatim>\<open>'education'\<close>) returns with the other parameters unchanged: the same snapshots, field by
  field. The unknown key raises nothing: the call returns whenever the current age is
  given. The table has the eight keys of \<open>INDUSTRY_GROWTH_dom\<close>.
\<close>

theorem unknown_industry_falls_back:
  assumes "INDUSTRY_GROWTH k = None" and "INDUSTRY_GROWTH k' = Some (3 / 100)"
  shows "growth_rate k = 3 / 100 \<and>
     calculate_projection (p\<lparr>industry := k\<rparr>) = calculate_projection (p\<lparr>industry := k'\<rparr>) \<and>
     (\<forall>a. current_age p = Some a \<longrightarrow>
        (\<exists>res. calculate_projection (p\<lparr>industry := k\<rparr>) = Inr res))"
proof -
  from assms have eq: "growth_rate k = growth_rate k'" and k: "growth_rate k = 3 / 100"
    by (simp_all add: growth_rate_def)
  have "\<exists>res. calculate_projection (p\<lparr>industry := k\<rparr>) = Inr res" if "current_age p = Some a" for a
    using calculate_projection_returns[of "p\<lparr>industry := k\<rparr>" a] that by simp
  with calculate_projection_same_rate[OF eq, of p] k show ?thesis by blast
qed

theorem unknown_industry_falls_back_witness:
  "INDUSTRY_GROWTH ''unknown_key'' = None \<and>
   INDUSTRY_GROWTH ''education'' = Some (3 / 100) \<and>
   growth_rate ''unknown_key'' = 3 / 100 \<and>
   calculate_projection (married\<lparr>industry := ''unknown_key''\<rparr>) =
     calculate_projection (married\<lparr>industry := ''education''\<rparr>)"
proof -
  have u: "INDUSTRY_GROWTH ''unknown_key'' = None" by (simp add: INDUSTRY_GROWTH_def)
  have e: "INDUSTRY_GROWTH ''education'' = Some (3 / 100)" by (simp add: INDUSTRY_GROWTH_def)
  from unknown_industry_falls_back[OF u e, of married] u e show ?thesis by blast
qed

end
